theory Spec2Isabelle
  imports Main "HOL-Library.AList" "HOL-Library.Sublist"
begin

section \<open>The JavaScript values the request layer handles\<close>

text \<open>
  The module \<^verbatim>\<open>src/lib/data/api.ts\<close> decodes response bodies with
  \<^verbatim>\<open>response.json() as T\<close>: the cast is erased at run time, so what the
  functions really handle is an arbitrary JSON value. The datatype below is
  that run-time value. A number is a double; the numbers this layer computes
  with are counts and offsets, so \<open>JNum n\<close> is the double whose value is the
  integer \<open>n\<close> (an integer that a double can hold), \<open>JInf\<close> is an infinity
  with its sign (\<open>True\<close> for the positive one) and \<open>JNaN\<close> is not-a-number.
  Strings are ASCII, so that the length of a string is its number of
  characters. In \<open>JObj\<close> the list holds the object's own properties in
  insertion order, each key once; a value decoded from JSON holds no
  function.
\<close>

datatype jsval =
    JUndefined
  | JNull
  | JBool bool
  | JNum int
  | JNaN
  | JInf bool
  | JStr string
  | JArr "jsval list"
  | JObj "(string \<times> jsval) list"

text \<open>Truthiness, as \<^verbatim>\<open>if (v)\<close> and \<^verbatim>\<open>v ? a : b\<close> test it.\<close>

fun js_truthy :: "jsval \<Rightarrow> bool" where
  "js_truthy JUndefined = False"
| "js_truthy JNull = False"
| "js_truthy (JBool b) = b"
| "js_truthy (JNum n) = (n \<noteq> 0)"
| "js_truthy JNaN = False"
| "js_truthy (JInf s) = True"
| "js_truthy (JStr s) = (s \<noteq> [])"
| "js_truthy (JArr xs) = True"
| "js_truthy (JObj kvs) = True"

text \<open>Truthiness of a value typed \<^verbatim>\<open>string | null | undefined\<close>.\<close>

fun str_truthy :: "string option \<Rightarrow> bool" where
  "str_truthy None = False"
| "str_truthy (Some s) = (s \<noteq> [])"

text \<open>\<^verbatim>\<open>a ?? b\<close>\<close>

definition nullish :: "jsval \<Rightarrow> jsval \<Rightarrow> jsval" where
  "nullish a b = (if a = JUndefined \<or> a = JNull then b else a)"

subsection \<open>Failures\<close>

text \<open>
  The ways a call of this module rejects: the transport fails
  (\<^verbatim>\<open>fetch\<close> rejects), the body of a response cannot be read
  (\<^verbatim>\<open>response.text()\<close> or \<^verbatim>\<open>response.json()\<close> rejects before any text
  is there; the reason is the platform's and is not built by this module),
  the response is not a success
  (\<^verbatim>\<open>throw new Error(`API error: ...`)\<close>, with its message), a success body
  is not JSON (\<^verbatim>\<open>response.json()\<close> rejects on the text), or a value is used
  where it cannot be: a property is read from \<^verbatim>\<open>null\<close> or
  \<^verbatim>\<open>undefined\<close>, or an object cannot be converted to a primitive.
\<close>

datatype error =
    TransportError
  | BodyReadError
  | ApiError string
  | DecodeError
  | TypeError

subsection \<open>Doubles that hold integers\<close>

text \<open>The number of binary digits of a natural number.\<close>

function bit_length :: "nat \<Rightarrow> nat" where
  "bit_length n = (if n = 0 then 0 else Suc (bit_length (n div 2)))"
  by pat_completeness auto
termination
  by (relation "measure (\<lambda>n. n)") auto

declare bit_length.simps [simp del]

text \<open>
  The double nearest to a natural number: a double has 53 significant
  binary digits, so up to \<open>2 ^ 53\<close> every natural number is one; above, the
  digits beyond the 53rd are rounded away, to the nearest, and to the even
  neighbour when both are as near.
\<close>

definition round_nat :: "nat \<Rightarrow> nat" where
  "round_nat x =
     (if x \<le> 2 ^ 53 then x
      else (let k = bit_length x - 53;
                q = x div 2 ^ k;
                r = x mod 2 ^ k;
                h = 2 ^ (k - 1)
            in if h < r \<or> (r = h \<and> odd q) then (q + 1) * 2 ^ k else q * 2 ^ k))"

text \<open>
  The number that an exact integer result becomes: the nearest double, and
  an infinity when that is \<open>2 ^ 1024\<close> or beyond.
\<close>

definition to_number :: "int \<Rightarrow> jsval" where
  "to_number i =
     (let m = round_nat (nat \<bar>i\<bar>)
      in if 2 ^ 1024 \<le> m then JInf (0 < i)
         else JNum (if i < 0 then - int m else int m))"

subsection \<open>Numbers in template literals\<close>

text \<open>Decimal digits of a natural number.\<close>

definition digit :: "nat \<Rightarrow> char" where
  "digit d = ''0123456789'' ! (d mod 10)"

function show_nat :: "nat \<Rightarrow> string" where
  "show_nat n = (if n < 10 then [digit n] else show_nat (n div 10) @ [digit (n mod 10)])"
  by pat_completeness auto
termination
  by (relation "measure (\<lambda>n. n)") auto

declare show_nat.simps [simp del]

text \<open>
  \<^verbatim>\<open>Number.prototype.toString\<close> prints the shortest decimal that still
  reads back as the same double, and of several such the nearest. For a
  double \<open>x\<close> above \<open>2 ^ 53\<close>, \<open>shortest_from x p\<close> looks for it among the
  multiples of \<open>10 ^ p\<close> next to \<open>x\<close>, then among those of \<open>10 ^ (p - 1)\<close>,
  and so on down to \<open>x\<close> itself.
\<close>

fun shortest_from :: "nat \<Rightarrow> nat \<Rightarrow> nat" where
  "shortest_from x 0 = x"
| "shortest_from x (Suc p) =
     (let u = 10 ^ Suc p;
          lo = (x div u) * u;
          hi = lo + u;
          lo_ok = (round_nat lo = x);
          hi_ok = (round_nat hi = x)
      in if lo_ok \<and> hi_ok then
           (if x - lo < hi - x then lo
            else if hi - x < x - lo then hi
            else if even (x div u) then lo else hi)
         else if lo_ok then lo
         else if hi_ok then hi
         else shortest_from x p)"

text \<open>
  The digits \<open>ds\<close> of a number of 22 digits or more, in exponent notation:
  the significant digits, a point after the first when there are more, and
  the exponent.
\<close>

definition exponent_form :: "string \<Rightarrow> string" where
  "exponent_form ds =
     (let sig = rev (dropWhile (\<lambda>c. c = CHR ''0'') (rev ds))
      in (case sig of
            [] \<Rightarrow> []
          | [c] \<Rightarrow> [c]
          | c # cs \<Rightarrow> c # CHR ''.'' # cs)
         @ ''e+'' @ show_nat (length ds - 1))"

definition show_pos :: "nat \<Rightarrow> string" where
  "show_pos x =
     (if x \<le> 2 ^ 53 then show_nat x
      else (let ds = show_nat (shortest_from x (length (show_nat x) - 1))
            in if length ds \<le> 21 then ds else exponent_form ds))"

text \<open>
  \<^verbatim>\<open>`${n}`\<close> for a double that holds the integer \<open>n\<close>: decimal digits up to
  \<open>2 ^ 53\<close>, the shortest digits followed by zeros up to 21 digits, exponent
  notation beyond, and a leading minus sign when it is negative.
\<close>

definition show_int :: "int \<Rightarrow> string" where
  "show_int i = (if i < 0 then CHR ''-'' # show_pos (nat (- i)) else show_pos (nat i))"

subsection \<open>Conversion to string, addition, property access\<close>

text \<open>\<^verbatim>\<open>Array.prototype.join\<close> on an array of strings.\<close>

fun join :: "string \<Rightarrow> string list \<Rightarrow> string" where
  "join sep [] = []"
| "join sep [x] = x"
| "join sep (x # y # ys) = x @ sep @ join sep (y # ys)"

text \<open>
  \<^verbatim>\<open>String(v)\<close>, and with it the conversion of an object to a primitive. An
  array prints its elements separated by commas, with \<^verbatim>\<open>null\<close> and
  \<^verbatim>\<open>undefined\<close> elements printed as nothing. A plain object prints as
  \<^verbatim>\<open>[object Object]\<close> through the \<^verbatim>\<open>toString\<close> it inherits; when it has a
  property \<^verbatim>\<open>toString\<close> of its own, which is no function, there is nothing
  to convert it with and the conversion throws.
\<close>

fun js_to_string :: "jsval \<Rightarrow> error + string"
  and js_join :: "jsval list \<Rightarrow> error + string" where
  "js_to_string JUndefined = Inr ''undefined''"
| "js_to_string JNull = Inr ''null''"
| "js_to_string (JBool b) = Inr (if b then ''true'' else ''false'')"
| "js_to_string (JNum n) = Inr (show_int n)"
| "js_to_string JNaN = Inr ''NaN''"
| "js_to_string (JInf s) = Inr (if s then ''Infinity'' else ''-Infinity'')"
| "js_to_string (JStr s) = Inr s"
| "js_to_string (JArr xs) = js_join xs"
| "js_to_string (JObj kvs) =
     (if map_of kvs ''toString'' = None then Inr ''[object Object]'' else Inl TypeError)"
| "js_join [] = Inr []"
| "js_join [x] = (if x = JUndefined \<or> x = JNull then Inr [] else js_to_string x)"
| "js_join (x # y # ys) =
     (case (if x = JUndefined \<or> x = JNull then Inr [] else js_to_string x) of
        Inl err \<Rightarrow> Inl err
      | Inr s \<Rightarrow>
          (case js_join (y # ys) of
             Inl err \<Rightarrow> Inl err
           | Inr t \<Rightarrow> Inr (s @ '','' @ t)))"

text \<open>
  \<^verbatim>\<open>n + v\<close> where \<open>n\<close> is a number: the sum as a double when \<open>v\<close> converts
  to a number, string concatenation when \<open>v\<close> is a string, an array or an
  object.
\<close>

fun num_plus :: "int \<Rightarrow> jsval \<Rightarrow> error + jsval" where
  "num_plus n JUndefined = Inr JNaN"
| "num_plus n JNull = Inr (to_number n)"
| "num_plus n (JBool b) = Inr (to_number (n + (if b then 1 else 0)))"
| "num_plus n (JNum m) = Inr (to_number (n + m))"
| "num_plus n JNaN = Inr JNaN"
| "num_plus n (JInf s) = Inr (JInf s)"
| "num_plus n (JStr s) = Inr (JStr (show_int n @ s))"
| "num_plus n (JArr xs) =
     (case js_to_string (JArr xs) of
        Inl err \<Rightarrow> Inl err
      | Inr s \<Rightarrow> Inr (JStr (show_int n @ s)))"
| "num_plus n (JObj kvs) =
     (case js_to_string (JObj kvs) of
        Inl err \<Rightarrow> Inl err
      | Inr s \<Rightarrow> Inr (JStr (show_int n @ s)))"

text \<open>
  \<^verbatim>\<open>v.k\<close>. The keys this module reads are \<^verbatim>\<open>result\<close>, \<^verbatim>\<open>left\<close> and
  \<^verbatim>\<open>length\<close>; of these only \<^verbatim>\<open>length\<close> is a property of arrays and
  strings, and none is inherited by a plain object.
\<close>

fun get_prop :: "jsval \<Rightarrow> string \<Rightarrow> error + jsval" where
  "get_prop JUndefined k = Inl TypeError"
| "get_prop JNull k = Inl TypeError"
| "get_prop (JObj kvs) k = Inr (case map_of kvs k of Some v \<Rightarrow> v | None \<Rightarrow> JUndefined)"
| "get_prop (JArr xs) k = Inr (if k = ''length'' then JNum (int (length xs)) else JUndefined)"
| "get_prop (JStr s) k = Inr (if k = ''length'' then JNum (int (length s)) else JUndefined)"
| "get_prop (JBool b) k = Inr JUndefined"
| "get_prop (JNum n) k = Inr JUndefined"
| "get_prop JNaN k = Inr JUndefined"
| "get_prop (JInf s) k = Inr JUndefined"

section \<open>Session store, transport and environment\<close>

text \<open>The one field of \<^verbatim>\<open>Identity\<close> that this module reads.\<close>

record Identity =
  accessToken :: string

text \<open>The argument of \<^verbatim>\<open>fetch\<close>: the full URL and the init object.\<close>

record request =
  url :: string
  http_method :: string
  headers :: "(string \<times> string) list"
  body :: "string option"

text \<open>
  A response: its status, a number of three digits, and the text that
  reading its body gives, \<open>None\<close> when the read rejects (the connection
  breaks while the body streams, or the request is aborted).
  \<^verbatim>\<open>response.ok\<close> is, by the Fetch standard, the status being in the range
  200 to 299.
\<close>

record response =
  status :: nat
  body_text :: "string option"

definition ok :: "response \<Rightarrow> bool" where
  "ok r = (200 \<le> status r \<and> status r \<le> 299)"

text \<open>
  The effects of a call, in order: the requests handed to \<^verbatim>\<open>fetch\<close> and the
  calls of \<^verbatim>\<open>persistent.flush()\<close>.
\<close>

datatype event = Fetch request | Flush

text \<open>
  The world a call runs in: \<^verbatim>\<open>persistent.identity\<close>, the durable storage
  behind the session store, and the trace of effects so far.
\<close>

record world =
  identity :: "Identity option"
  storage :: "Identity option"
  trace :: "event list"

text \<open>
  Modelled from the spec: \<^verbatim>\<open>persistent.flush\<close>, of the module
  \<^verbatim>\<open>./persistent.svelte\<close>, which is not part of the sources at hand. The
  specification describes it as the operation that commits the state of the
  session store to durable storage.
\<close>

definition flush :: "world \<Rightarrow> world" where
  "flush w = w\<lparr>storage := identity w, trace := trace w @ [Flush]\<rparr>"

text \<open>
  What the module takes from outside: \<^verbatim>\<open>PUBLIC_BASE_URL\<close>, the network
  behind \<^verbatim>\<open>fetch\<close> (\<open>None\<close> when the request fails in transport),
  \<^verbatim>\<open>JSON.stringify\<close> and the JSON parser behind \<^verbatim>\<open>response.json()\<close>
  (\<open>None\<close> when the text is not JSON).
\<close>

record env =
  BASE_URL :: string
  fetch :: "request \<Rightarrow> response option"
  stringify :: "jsval \<Rightarrow> string"
  parse_json :: "string \<Rightarrow> jsval option"

section \<open>The dispatcher\<close>

text \<open>The headers of a request, lines 46 to 52.\<close>

definition build_headers :: "world \<Rightarrow> (string \<times> string) list" where
  "build_headers w =
     (let headers = [(''Content-Type'', ''application/json'')]
      in case identity w of
           None \<Rightarrow> headers
         | Some i \<Rightarrow>
             if accessToken i \<noteq> []
             then AList.update ''Authorization'' (''Bearer '' @ accessToken i) headers
             else headers)"

text \<open>The request handed to \<^verbatim>\<open>fetch\<close>, lines 54 to 60.\<close>

definition build_request :: "env \<Rightarrow> world \<Rightarrow> string \<Rightarrow> string \<Rightarrow> jsval \<Rightarrow> request" where
  "build_request e w u m b =
     \<lparr>url = BASE_URL e @ u,
      http_method = m,
      headers = build_headers w,
      body = (if js_truthy b then Some (stringify e b) else None)\<rparr>"

text \<open>
  \<^verbatim>\<open>apiCall(url, method, body)\<close>. An omitted \<^verbatim>\<open>body\<close> is \<open>JUndefined\<close>; a
  caller that omits \<^verbatim>\<open>method\<close> passes the default \<^verbatim>\<open>GET\<close>. On a response
  that is not a success the body is read first, at line 63, and only then is
  the status compared with 401: a read that rejects ends the call there. A
  response with status 204 is answered without reading its body.
\<close>

definition apiCall ::
  "env \<Rightarrow> string \<Rightarrow> string \<Rightarrow> jsval \<Rightarrow> world \<Rightarrow> (error + jsval) \<times> world" where
  "apiCall e u m b w =
     (let req = build_request e w u m b;
          w1 = w\<lparr>trace := trace w @ [Fetch req]\<rparr>
      in case fetch e req of
           None \<Rightarrow> (Inl TransportError, w1)
         | Some r \<Rightarrow>
             if \<not> ok r then
               (case body_text r of
                  None \<Rightarrow> (Inl BodyReadError, w1)
                | Some err \<Rightarrow>
                    (let w2 = (if status r = 401 then flush (w1\<lparr>identity := None\<rparr>)
                               else w1)
                     in (Inl (ApiError (''API error: '' @ show_nat (status r) @
                                         '' - '' @ err)), w2)))
             else if status r = 204 then (Inr JNull, w1)
             else (case body_text r of
                     None \<Rightarrow> (Inl BodyReadError, w1)
                   | Some t \<Rightarrow>
                       (case parse_json e t of
                          None \<Rightarrow> (Inl DecodeError, w1)
                        | Some v \<Rightarrow> (Inr v, w1))))"

text \<open>
  The requests handed to \<^verbatim>\<open>fetch\<close> between the world \<open>w\<close> before a call
  and the world \<open>w'\<close> after it.
\<close>

fun requests_of :: "event list \<Rightarrow> request list" where
  "requests_of [] = []"
| "requests_of (Fetch r # es) = r # requests_of es"
| "requests_of (Flush # es) = requests_of es"

definition sent :: "world \<Rightarrow> world \<Rightarrow> request list" where
  "sent w w' = requests_of (drop (length (trace w)) (trace w'))"

section \<open>Resource operations\<close>

text \<open>
  \<^verbatim>\<open>const response = await apiCall(...); return response.result\<close>: the
  failure of the call is passed on, and so is the failure of reading
  \<^verbatim>\<open>result\<close> from \<^verbatim>\<open>null\<close>.
\<close>

definition result_of :: "(error + jsval) \<times> world \<Rightarrow> (error + jsval) \<times> world" where
  "result_of c =
     (case c of
        (Inl err, w') \<Rightarrow> (Inl err, w')
      | (Inr response, w') \<Rightarrow> (get_prop response ''result'', w'))"

text \<open>
  A value typed \<^verbatim>\<open>string | null\<close> inside a template literal. \<open>None\<close> is
  \<^verbatim>\<open>null\<close>; the module interpolates such a value only after a test that
  excludes it.
\<close>

fun interp :: "string option \<Rightarrow> string" where
  "interp None = ''null''"
| "interp (Some s) = s"

subsection \<open>Transactions\<close>

text \<open>
  The argument object of \<^verbatim>\<open>transactionsList\<close>. An optional field that is
  left out is \<open>None\<close>, as is a field that is \<^verbatim>\<open>null\<close>.
  \<^verbatim>\<open>AnalyticsPeriod\<close> and \<^verbatim>\<open>OperationType\<close> are string types. The
  identifiers, the context (an integer offset, in the words of the
  specification) and the limit are doubles that hold integers.
\<close>

record transactions_query =
  currencyId :: "int option"
  costCategoryId :: "int option"
  period :: "string option"
  startDate :: "string option"
  endDate :: "string option"
  operation :: "string option"
  context_arg :: "int option"
  limit_arg :: "int option"

text \<open>The defaults \<^verbatim>\<open>context = 0\<close> and \<^verbatim>\<open>limit = 15\<close>.\<close>

definition the_context :: "transactions_query \<Rightarrow> int" where
  "the_context q = (case context_arg q of None \<Rightarrow> 0 | Some c \<Rightarrow> c)"

definition the_limit :: "transactions_query \<Rightarrow> int" where
  "the_limit q = (case limit_arg q of None \<Rightarrow> 15 | Some l \<Rightarrow> l)"

text \<open>Lines 109 to 121: the particles pushed one after the other, then joined.\<close>

definition transactionsList_url :: "transactions_query \<Rightarrow> string" where
  "transactionsList_url q =
     (let urlParticles =
            [''/transactions?context='' @ show_int (the_context q) @
             ''&limit='' @ show_int (the_limit q)];
          urlParticles = (case currencyId q of
              None \<Rightarrow> urlParticles
            | Some v \<Rightarrow> urlParticles @ [''&currencyId='' @ show_int v]);
          urlParticles = (case costCategoryId q of
              None \<Rightarrow> urlParticles
            | Some v \<Rightarrow> urlParticles @ [''&costCategoryId='' @ show_int v]);
          urlParticles = (case period q of
              None \<Rightarrow> urlParticles
            | Some v \<Rightarrow> urlParticles @ [''&period='' @ v]);
          urlParticles = (case startDate q of
              None \<Rightarrow> urlParticles
            | Some v \<Rightarrow> urlParticles @ [''&startDate='' @ v]);
          urlParticles = (case endDate q of
              None \<Rightarrow> urlParticles
            | Some v \<Rightarrow> urlParticles @ [''&endDate='' @ v]);
          urlParticles = (case operation q of
              None \<Rightarrow> urlParticles
            | Some v \<Rightarrow> urlParticles @ [''&operation='' @ v])
      in join [] urlParticles)"

text \<open>
  Lines 126 to 132: the object returned from the decoded payload
  \<open>results\<close>, for the context \<open>c\<close> of the call.
\<close>

definition paginate :: "int \<Rightarrow> jsval \<Rightarrow> error + jsval" where
  "paginate c results =
     (case get_prop results ''result'' of
        Inl err \<Rightarrow> Inl err
      | Inr res \<Rightarrow>
          (case get_prop res ''length'' of
             Inl err \<Rightarrow> Inl err
           | Inr len \<Rightarrow>
               (case num_plus c len of
                  Inl err \<Rightarrow> Inl err
                | Inr newContext \<Rightarrow>
                    (case get_prop results ''left'' of
                       Inl err \<Rightarrow> Inl err
                     | Inr left \<Rightarrow>
                         Inr (JObj [(''context'', newContext), (''left'', left),
                                    (''result'', res)])))))"

definition transactionsList ::
  "env \<Rightarrow> transactions_query \<Rightarrow> world \<Rightarrow> (error + jsval) \<times> world" where
  "transactionsList e q w =
     (case apiCall e (transactionsList_url q) ''GET'' JUndefined w of
        (Inl err, w') \<Rightarrow> (Inl err, w')
      | (Inr results, w') \<Rightarrow> (paginate (the_context q) results, w'))"

subsection \<open>Costs and cost shortcuts\<close>

definition costCategoriesList :: "env \<Rightarrow> world \<Rightarrow> (error + jsval) \<times> world" where
  "costCategoriesList e w = apiCall e ''/costs/categories'' ''GET'' JUndefined w"

definition costShortcutsList :: "env \<Rightarrow> world \<Rightarrow> (error + jsval) \<times> world" where
  "costShortcutsList e w = apiCall e ''/costs/shortcuts'' ''GET'' JUndefined w"

text \<open>An omitted \<^verbatim>\<open>requestBody\<close> is \<open>JUndefined\<close>.\<close>

definition costShortcutApply ::
  "env \<Rightarrow> int \<Rightarrow> jsval \<Rightarrow> world \<Rightarrow> (error + jsval) \<times> world" where
  "costShortcutApply e shortcutId requestBody w =
     apiCall e (''/costs/shortcuts/'' @ show_int shortcutId) ''POST''
       (nullish requestBody JUndefined) w"

subsection \<open>Notifications and analytics\<close>

definition notificationsList :: "env \<Rightarrow> world \<Rightarrow> (error + jsval) \<times> world" where
  "notificationsList e w = result_of (apiCall e ''/notifications'' ''GET'' JUndefined w)"

definition equityList :: "env \<Rightarrow> world \<Rightarrow> (error + jsval) \<times> world" where
  "equityList e w = apiCall e ''/analytics/equity'' ''GET'' JUndefined w"

definition fetchBasicAnalyticsByPeriod ::
  "env \<Rightarrow> string \<Rightarrow> world \<Rightarrow> (error + jsval) \<times> world" where
  "fetchBasicAnalyticsByPeriod e p w =
     result_of (apiCall e (''/analytics/basic?period='' @ p) ''GET'' JUndefined w)"

text \<open>
  The fields of \<^verbatim>\<open>AnalyticsFiltersQueryParams\<close> that
  \<^verbatim>\<open>fetchBasicAnalyticsFiltered\<close> reads, each a string that may be missing.
\<close>

record AnalyticsFiltersQueryParams =
  f_startDate :: "string option"
  f_endDate :: "string option"
  f_pattern :: "string option"

text \<open>Lines 270 to 280.\<close>

definition fetchBasicAnalyticsFiltered_url :: "AnalyticsFiltersQueryParams \<Rightarrow> string" where
  "fetchBasicAnalyticsFiltered_url filters =
     (let url = ''/analytics/basic'';
          url = (if str_truthy (f_startDate filters) \<and> str_truthy (f_endDate filters)
                 then url @ ''?startDate='' @ interp (f_startDate filters) @
                      ''&endDate='' @ interp (f_endDate filters)
                 else url)
      in if str_truthy (f_pattern filters)
         then (if str_truthy (f_startDate filters) \<and> str_truthy (f_endDate filters)
               then url @ ''&pattern='' @ interp (f_pattern filters)
               else url @ ''?pattern='' @ interp (f_pattern filters))
         else url)"

definition fetchBasicAnalyticsFiltered ::
  "env \<Rightarrow> AnalyticsFiltersQueryParams \<Rightarrow> world \<Rightarrow> (error + jsval) \<times> world" where
  "fetchBasicAnalyticsFiltered e filters w =
     result_of (apiCall e (fetchBasicAnalyticsFiltered_url filters) ''GET'' JUndefined w)"

section \<open>What the specification asks of the URLs\<close>

text \<open>
  The filters of a transaction query that are not \<^verbatim>\<open>null\<close>, as key and
  printed value, in the order the specification fixes.
\<close>

definition present_filters :: "transactions_query \<Rightarrow> (string \<times> string) list" where
  "present_filters q =
     List.map_filter (\<lambda>(k, v). map_option (Pair k) v)
       [(''currencyId'', map_option show_int (currencyId q)),
        (''costCategoryId'', map_option show_int (costCategoryId q)),
        (''period'', period q),
        (''startDate'', startDate q),
        (''endDate'', endDate q),
        (''operation'', operation q)]"

definition spec_transactions_url :: "transactions_query \<Rightarrow> string" where
  "spec_transactions_url q =
     ''/transactions?context='' @ show_int (the_context q) @
     ''&limit='' @ show_int (the_limit q) @
     concat (map (\<lambda>(k, v). ''&'' @ k @ ''='' @ v) (present_filters q))"

text \<open>The separators of a query string, and the three conditions on them.\<close>

definition is_sep :: "char \<Rightarrow> bool" where
  "is_sep c = (c = CHR ''?'' \<or> c = CHR ''&'')"

fun double_sep :: "string \<Rightarrow> bool" where
  "double_sep (a # b # cs) = ((is_sep a \<and> is_sep b) \<or> double_sep (b # cs))"
| "double_sep [a] = False"
| "double_sep [] = False"

fun trailing_sep :: "string \<Rightarrow> bool" where
  "trailing_sep [] = False"
| "trailing_sep [a] = is_sep a"
| "trailing_sep (a # b # cs) = trailing_sep (b # cs)"

definition well_separated :: "string \<Rightarrow> bool" where
  "well_separated u =
     (count_list u CHR ''?'' \<le> 1 \<and> \<not> double_sep u \<and> \<not> trailing_sep u)"

text \<open>
  A filter value that brings none of the three faults with it: no question
  mark, no two separators in a row, no separator at its end.
\<close>

definition clean :: "string \<Rightarrow> bool" where
  "clean v = (count_list v CHR ''?'' = 0 \<and> \<not> double_sep v \<and> \<not> trailing_sep v)"

text \<open>
  The filter values that are present in the sense of the specification: the
  two dates when both are given, the pattern when it is given.
\<close>

definition present_values :: "AnalyticsFiltersQueryParams \<Rightarrow> string list" where
  "present_values f =
     (if str_truthy (f_startDate f) \<and> str_truthy (f_endDate f)
      then [interp (f_startDate f), interp (f_endDate f)] else [])
     @ (if str_truthy (f_pattern f) then [interp (f_pattern f)] else [])"

section \<open>Sample environments\<close>

text \<open>
  A server that answers every request with the status \<open>st\<close> and the body
  \<open>txt\<close>, and a parser that reads every body as \<open>v\<close>.
\<close>

definition sample_env :: "nat \<Rightarrow> string \<Rightarrow> jsval option \<Rightarrow> env" where
  "sample_env st txt v =
     \<lparr>BASE_URL = ''https://api.test'',
      fetch = (\<lambda>req. Some \<lparr>status = st, body_text = Some txt\<rparr>),
      stringify = (\<lambda>b. ''{}''),
      parse_json = (\<lambda>t. v)\<rparr>"

text \<open>A server whose responses have the status \<open>st\<close> and a body that cannot be read.\<close>

definition cut_off_env :: "nat \<Rightarrow> env" where
  "cut_off_env st =
     \<lparr>BASE_URL = ''https://api.test'',
      fetch = (\<lambda>req. Some \<lparr>status = st, body_text = None\<rparr>),
      stringify = (\<lambda>b. ''{}''),
      parse_json = (\<lambda>t. None)\<rparr>"

definition signed_in :: world where
  "signed_in =
     \<lparr>identity = Some \<lparr>accessToken = ''abc''\<rparr>,
      storage = Some \<lparr>accessToken = ''abc''\<rparr>,
      trace = []\<rparr>"

definition signed_out :: world where
  "signed_out = \<lparr>identity = None, storage = None, trace = []\<rparr>"

definition page :: jsval where
  "page = JObj [(''result'', JArr [JStr ''t1'', JStr ''t2'', JStr ''t3'']),
                (''left'', JNum 7), (''context'', JNum 99)]"

definition last_page :: jsval where
  "last_page = JObj [(''result'', JArr [JStr ''t1'']), (''left'', JNum 0),
                     (''context'', JNum 0)]"

definition no_filters :: transactions_query where
  "no_filters =
     \<lparr>currencyId = None, costCategoryId = None, period = None, startDate = None,
      endDate = None, operation = None, context_arg = None, limit_arg = None\<rparr>"

definition envelope :: jsval where
  "envelope = JObj [(''result'', JArr [JStr ''food'', JStr ''rent''])]"

definition only_pattern :: AnalyticsFiltersQueryParams where
  "only_pattern = \<lparr>f_startDate = None, f_endDate = None, f_pattern = Some ''what?''\<rparr>"

definition one_date :: AnalyticsFiltersQueryParams where
  "one_date =
     \<lparr>f_startDate = Some ''2024-01-01'', f_endDate = None, f_pattern = Some ''rent''\<rparr>"

definition all_filters :: AnalyticsFiltersQueryParams where
  "all_filters =
     \<lparr>f_startDate = Some ''2024-01-01'', f_endDate = Some ''2024-01-31'',
      f_pattern = Some ''rent''\<rparr>"

section \<open>Auxiliary facts\<close>

text \<open>Every call hands exactly one request to \<^verbatim>\<open>fetch\<close>, whatever comes back.\<close>

lemma sent_apiCall: "sent w (snd (apiCall e u m b w)) = [build_request e w u m b]"
  by (simp add: apiCall_def sent_def flush_def Let_def split: option.splits)

lemma snd_result_of: "snd (result_of c) = snd c"
  by (cases c) (simp add: result_of_def split: sum.splits)

lemma join_empty_sep: "join [] xs = concat xs"
  by (induction xs rule: induct_list012) simp_all

lemma sent_transactionsList:
  "sent w (snd (transactionsList e q w)) =
     [build_request e w (transactionsList_url q) ''GET'' JUndefined]"
proof -
  have "snd (transactionsList e q w) =
          snd (apiCall e (transactionsList_url q) ''GET'' JUndefined w)"
    by (simp add: transactionsList_def split: prod.splits sum.splits)
  then show ?thesis by (simp add: sent_apiCall)
qed

subsection \<open>Integers that a double holds exactly\<close>

lemma to_number_exact:
  assumes "\<bar>i\<bar> \<le> 2 ^ 53"
  shows "to_number i = JNum i"
proof -
  have small: "nat \<bar>i\<bar> \<le> 2 ^ 53"
    using assms by (simp add: nat_le_iff)
  then have r: "round_nat (nat \<bar>i\<bar>) = nat \<bar>i\<bar>"
    by (simp add: round_nat_def)
  have "(2::nat) ^ 53 < 2 ^ 1024"
    by (rule power_strict_increasing) simp_all
  with small have "\<not> 2 ^ 1024 \<le> nat \<bar>i\<bar>"
    by linarith
  with r show ?thesis
    by (simp add: to_number_def Let_def)
qed

lemma to_number_above: "to_number 9007199254740993 = JNum 9007199254740992"
  by (simp add: to_number_def round_nat_def bit_length.simps Let_def)

subsection \<open>Separators in a URL built from a key and a value\<close>

lemma is_sep_Char:
  "is_sep (Char a b c d e f g h) =
     (Char a b c d e f g h = CHR ''?'' \<or> Char a b c d e f g h = CHR ''&'')"
  by (simp add: is_sep_def)

lemma trailing_sep_last: "trailing_sep s \<longleftrightarrow> s \<noteq> [] \<and> is_sep (last s)"
  by (induction s rule: trailing_sep.induct) simp_all

lemma double_sep_Cons:
  "double_sep (a # u) \<longleftrightarrow> (u \<noteq> [] \<and> is_sep a \<and> is_sep (hd u)) \<or> double_sep u"
  by (cases u) simp_all

lemma double_sep_append:
  "double_sep (xs @ ys) \<longleftrightarrow>
     double_sep xs \<or> double_sep ys \<or>
     (xs \<noteq> [] \<and> ys \<noteq> [] \<and> is_sep (last xs) \<and> is_sep (hd ys))"
proof (induction xs rule: double_sep.induct)
  case (1 a b cs)
  then show ?case by auto
next
  case (2 a)
  then show ?case by (cases ys) auto
next
  case 3
  then show ?case by simp
qed

lemma clean_last: "v \<noteq> [] \<Longrightarrow> clean v \<longleftrightarrow>
    count_list v CHR ''?'' = 0 \<and> \<not> double_sep v \<and> \<not> is_sep (last v)"
  by (simp add: clean_def trailing_sep_last)

lemma truthy_interp: "str_truthy v \<Longrightarrow> interp v \<noteq> []"
  by (cases v) simp_all

text \<open>The four shapes of the URL of the filtered analytics query.\<close>

lemma shape_none: "well_separated ''/analytics/basic''"
  by (simp add: well_separated_def is_sep_Char)

lemma shape_pattern:
  assumes "p \<noteq> []"
  shows "well_separated (''/analytics/basic?pattern='' @ p) \<longleftrightarrow> clean p"
  unfolding well_separated_def trailing_sep_last clean_last [OF assms]
  using assms by (simp add: double_sep_Cons is_sep_Char)

lemma shape_dates:
  assumes "s \<noteq> []" and "t \<noteq> []"
  shows "well_separated (''/analytics/basic?startDate='' @ s @ ''&endDate='' @ t)
           \<longleftrightarrow> clean s \<and> clean t"
  unfolding well_separated_def trailing_sep_last clean_last [OF assms(1)] clean_last [OF assms(2)]
  using assms by (simp add: double_sep_Cons double_sep_append is_sep_Char) blast

lemma shape_both:
  assumes "s \<noteq> []" and "t \<noteq> []" and "p \<noteq> []"
  shows "well_separated
           (''/analytics/basic?startDate='' @ s @ ''&endDate='' @ t @ ''&pattern='' @ p)
           \<longleftrightarrow> clean s \<and> clean t \<and> clean p"
  unfolding well_separated_def trailing_sep_last clean_last [OF assms(1)] clean_last [OF assms(2)]
    clean_last [OF assms(3)]
  using assms by (simp add: double_sep_Cons double_sep_append is_sep_Char) blast

section \<open>Pagination of the transaction list\<close>

text \<open>
  C1, as the specification states it, fails: the context returned is a
  double, and from \<open>2 ^ 53\<close> on not every integer is one. A call with the
  context 9007199254740992 that receives one item returns the context
  9007199254740992 again, not 9007199254740993.
\<close>

theorem transactionsList_context_counterexample:
  "fst (apiCall (sample_env 200 ''...'' (Some last_page))
          (transactionsList_url (no_filters\<lparr>context_arg := Some 9007199254740992\<rparr>))
          ''GET'' JUndefined signed_in)
     = Inr (JObj [(''result'', JArr [JStr ''t1'']), (''left'', JNum 0), (''context'', JNum 0)])
   \<and> fst (transactionsList (sample_env 200 ''...'' (Some last_page))
          (no_filters\<lparr>context_arg := Some 9007199254740992\<rparr>) signed_in)
     = Inr (JObj [(''context'', JNum 9007199254740992), (''left'', JNum 0),
                  (''result'', JArr [JStr ''t1''])])
   \<and> fst (transactionsList (sample_env 200 ''...'' (Some last_page))
          (no_filters\<lparr>context_arg := Some 9007199254740992\<rparr>) signed_in)
     \<noteq> Inr (JObj [(''context'', JNum (9007199254740992 + 1)), (''left'', JNum 0),
                  (''result'', JArr [JStr ''t1''])])"
  by (simp add: transactionsList_def paginate_def apiCall_def sample_env_def ok_def
      last_page_def signed_in_def no_filters_def the_context_def Let_def to_number_above)

text \<open>
  C1, amended. When the dispatcher returns, for the URL of the query, an
  object whose \<^verbatim>\<open>result\<close> is an array \<open>xs\<close>, whose \<^verbatim>\<open>left\<close> is \<open>l\<close> and
  whose \<^verbatim>\<open>context\<close> is \<open>c\<close>, then \<^verbatim>\<open>transactionsList\<close> returns the object
  with that array and that \<^verbatim>\<open>left\<close> unchanged and with \<^verbatim>\<open>context\<close> the
  double nearest to the context of the call plus the length of \<open>xs\<close>; that
  is the sum itself whenever the sum is at most \<open>2 ^ 53\<close> in magnitude. The
  \<open>c\<close> of the server is nowhere in the value returned.
\<close>

theorem transactionsList_context:
  assumes "apiCall e (transactionsList_url q) ''GET'' JUndefined w = (Inr (JObj kvs), w')"
      and "map_of kvs ''result'' = Some (JArr xs)"
      and "map_of kvs ''left'' = Some l"
      and "map_of kvs ''context'' = Some c"
  shows "transactionsList e q w =
           (Inr (JObj [(''context'', to_number (the_context q + int (length xs))),
                       (''left'', l), (''result'', JArr xs)]), w')
       \<and> (\<bar>the_context q + int (length xs)\<bar> \<le> 2 ^ 53 \<longrightarrow>
            to_number (the_context q + int (length xs))
              = JNum (the_context q + int (length xs)))"
  using assms by (simp add: transactionsList_def paginate_def to_number_exact)

theorem transactionsList_context_witness:
  "transactionsList (sample_env 200 ''...'' (Some page))
       (no_filters\<lparr>context_arg := Some 5\<rparr>) signed_in =
     (Inr (JObj [(''context'', JNum 8), (''left'', JNum 7),
                 (''result'', JArr [JStr ''t1'', JStr ''t2'', JStr ''t3''])]),
      signed_in\<lparr>trace := [Fetch (build_request (sample_env 200 ''...'' (Some page)) signed_in
         (transactionsList_url (no_filters\<lparr>context_arg := Some 5\<rparr>)) ''GET'' JUndefined)]\<rparr>)"
  using transactionsList_context [of "sample_env 200 ''...'' (Some page)"
      "no_filters\<lparr>context_arg := Some 5\<rparr>" signed_in
      "[(''result'', JArr [JStr ''t1'', JStr ''t2'', JStr ''t3'']), (''left'', JNum 7),
        (''context'', JNum 99)]"
      "signed_in\<lparr>trace := [Fetch (build_request (sample_env 200 ''...'' (Some page)) signed_in
         (transactionsList_url (no_filters\<lparr>context_arg := Some 5\<rparr>)) ''GET'' JUndefined)]\<rparr>"
      "[JStr ''t1'', JStr ''t2'', JStr ''t3'']" "JNum 7" "JNum 99"]
  by (simp add: apiCall_def sample_env_def ok_def page_def signed_in_def no_filters_def
      the_context_def Let_def)

section \<open>Properties of the dispatcher\<close>

text \<open>
  C2, as the specification states it, fails: on a response that is not a
  success the body is read before the status is compared with 401, and a
  read that rejects ends the call. For a response with status 401 whose body
  cannot be read the call fails with the failure of the read, the identity
  stays in the session store and nothing is flushed.
\<close>

theorem apiCall_401_counterexample:
  "apiCall (cut_off_env 401) ''/incomes'' ''GET'' JUndefined signed_in =
     (Inl BodyReadError,
      \<lparr>identity = Some \<lparr>accessToken = ''abc''\<rparr>, storage = Some \<lparr>accessToken = ''abc''\<rparr>,
       trace = [Fetch (build_request (cut_off_env 401) signed_in ''/incomes'' ''GET''
                         JUndefined)]\<rparr>)"
  by (simp add: apiCall_def cut_off_env_def signed_in_def ok_def Let_def build_request_def)

text \<open>
  C2, amended. Whatever the endpoint, the method and the body of the
  request: when the response has status 401 and its body can be read as
  text, \<^verbatim>\<open>apiCall\<close> fails with the API error, and in the world at the
  moment of the failure the session identity is absent, the flush has run
  after the request (it is the last effect of the trace) and the durable
  storage holds the absent identity.
\<close>

theorem apiCall_401_clears_session:
  assumes "fetch e (build_request e w u m b) = Some r" and "status r = 401"
    and "body_text r = Some t"
  shows "apiCall e u m b w =
           (Inl (ApiError (''API error: 401 - '' @ t)),
            w\<lparr>identity := None, storage := None,
              trace := trace w @ [Fetch (build_request e w u m b), Flush]\<rparr>)"
proof -
  have "show_nat 401 = ''401''"
    by (simp add: show_nat.simps [of 401] show_nat.simps [of 40] show_nat.simps [of 4] digit_def)
  with assms show ?thesis
    by (simp add: apiCall_def ok_def flush_def Let_def)
qed

theorem apiCall_401_clears_session_witness:
  "apiCall (sample_env 401 ''expired'' None) ''/incomes'' ''GET'' JUndefined signed_in =
     (Inl (ApiError ''API error: 401 - expired''),
      \<lparr>identity = None, storage = None,
       trace = [Fetch (build_request (sample_env 401 ''expired'' None) signed_in
                         ''/incomes'' ''GET'' JUndefined), Flush]\<rparr>)"
  using apiCall_401_clears_session [of "sample_env 401 ''expired'' None" signed_in "''/incomes''"
      "''GET''" JUndefined "\<lparr>status = 401, body_text = Some ''expired''\<rparr>" "''expired''"]
  by (simp add: sample_env_def signed_in_def)

text \<open>
  C3. The one request a call sends is \<open>build_request\<close>. When the session
  store holds an identity whose access token is not empty, the headers of
  that request map \<^verbatim>\<open>Authorization\<close> to \<^verbatim>\<open>Bearer\<close>, a space and the
  token. When the store holds no identity, or one whose token is empty, no
  header of the request has the key \<^verbatim>\<open>Authorization\<close>; the request is sent
  all the same.
\<close>

theorem apiCall_authorization:
  "sent w (snd (apiCall e u m b w)) = [build_request e w u m b]
   \<and> (\<forall>i. identity w = Some i \<and> accessToken i \<noteq> [] \<longrightarrow>
          map_of (headers (build_request e w u m b)) ''Authorization''
            = Some (''Bearer '' @ accessToken i))
   \<and> ((identity w = None \<or> (\<exists>i. identity w = Some i \<and> accessToken i = [])) \<longrightarrow>
          ''Authorization'' \<notin> fst ` set (headers (build_request e w u m b)))"
  by (auto simp add: sent_apiCall build_request_def build_headers_def)

theorem apiCall_authorization_witness:
  "map_of (headers (build_request (sample_env 200 ''{}'' (Some (JObj []))) signed_in
                      ''/costs'' ''GET'' JUndefined)) ''Authorization'' = Some ''Bearer abc''
   \<and> ''Authorization'' \<notin> fst ` set (headers (build_request (sample_env 200 ''{}'' (Some (JObj [])))
                      signed_out ''/costs'' ''GET'' JUndefined))"
  using apiCall_authorization [of signed_in "sample_env 200 ''{}'' (Some (JObj []))" "''/costs''"
      "''GET''" JUndefined]
    apiCall_authorization [of signed_out "sample_env 200 ''{}'' (Some (JObj []))" "''/costs''"
      "''GET''" JUndefined]
  by (simp add: signed_in_def signed_out_def)

text \<open>
  C4, as the specification states it, fails: for a response with status 500
  whose body cannot be read the call fails with the failure of the read,
  which is no API error and carries neither the status nor a body text.
\<close>

theorem apiCall_error_counterexample:
  "apiCall (cut_off_env 500) ''/costs'' ''GET'' JUndefined signed_in =
     (Inl BodyReadError,
      signed_in\<lparr>trace := [Fetch (build_request (cut_off_env 500) signed_in ''/costs'' ''GET''
                                JUndefined)]\<rparr>)"
  by (simp add: apiCall_def cut_off_env_def signed_in_def ok_def Let_def build_request_def)

text \<open>
  C4, amended. When the response is not a success and its status is not
  401, \<^verbatim>\<open>apiCall\<close> fails, and the world is the one before the call with
  the request added to the trace: the identity and the storage are
  untouched and no flush has run. When moreover the body of the response
  can be read as text, the failure is an API error whose message contains
  the decimal status and contains that text.
\<close>

theorem apiCall_error_keeps_session:
  assumes "fetch e (build_request e w u m b) = Some r" and "\<not> ok r" and "status r \<noteq> 401"
  shows "(\<exists>err. apiCall e u m b w =
             (Inl err, w\<lparr>trace := trace w @ [Fetch (build_request e w u m b)]\<rparr>))
       \<and> (\<forall>t. body_text r = Some t \<longrightarrow>
             (\<exists>msg. fst (apiCall e u m b w) = Inl (ApiError msg)
                \<and> sublist (show_nat (status r)) msg \<and> sublist t msg))"
proof -
  have world: "\<exists>err. apiCall e u m b w =
             (Inl err, w\<lparr>trace := trace w @ [Fetch (build_request e w u m b)]\<rparr>)"
    using assms by (cases "body_text r") (simp_all add: apiCall_def Let_def)
  have message: "\<exists>msg. fst (apiCall e u m b w) = Inl (ApiError msg)
                \<and> sublist (show_nat (status r)) msg \<and> sublist t msg"
    if t: "body_text r = Some t" for t
  proof -
    let ?msg = "''API error: '' @ show_nat (status r) @ '' - '' @ t"
    have "fst (apiCall e u m b w) = Inl (ApiError ?msg)"
      using assms t by (simp add: apiCall_def Let_def)
    moreover have "sublist (show_nat (status r)) ?msg"
      by (rule sublist_appendI)
    moreover have "sublist t ?msg"
      using sublist_append_leftI [of t "''API error: '' @ show_nat (status r) @ '' - ''"]
      by simp
    ultimately show ?thesis by blast
  qed
  from world message show ?thesis by blast
qed

theorem apiCall_error_keeps_session_witness:
  "(\<exists>err. apiCall (sample_env 500 ''server exploded'' None) ''/costs'' ''GET'' JUndefined signed_in =
            (Inl err,
             signed_in\<lparr>trace := [Fetch (build_request (sample_env 500 ''server exploded'' None)
                                        signed_in ''/costs'' ''GET'' JUndefined)]\<rparr>))
   \<and> (\<exists>msg. fst (apiCall (sample_env 500 ''server exploded'' None) ''/costs'' ''GET''
                   JUndefined signed_in) = Inl (ApiError msg)
         \<and> sublist (show_nat 500) msg \<and> sublist ''server exploded'' msg)"
  using apiCall_error_keeps_session [of "sample_env 500 ''server exploded'' None" signed_in
      "''/costs''" "''GET''" JUndefined "\<lparr>status = 500, body_text = Some ''server exploded''\<rparr>"]
  by (simp add: sample_env_def signed_in_def ok_def)

text \<open>
  C5. A response with status 204 makes \<^verbatim>\<open>apiCall\<close> resolve to \<^verbatim>\<open>null\<close>,
  whatever the body is and whatever the JSON parser would make of it: the
  body is not decoded.
\<close>

theorem apiCall_204_null:
  assumes "fetch e (build_request e w u m b) = Some r" and "status r = 204"
  shows "apiCall e u m b w = (Inr JNull, w\<lparr>trace := trace w @ [Fetch (build_request e w u m b)]\<rparr>)"
  using assms by (simp add: apiCall_def ok_def Let_def)

theorem apiCall_204_null_witness:
  "apiCall (sample_env 204 ''ignored'' None) ''/costs/7'' ''DELETE'' JUndefined signed_in =
     (Inr JNull,
      signed_in\<lparr>trace := [Fetch (build_request (sample_env 204 ''ignored'' None) signed_in
                                ''/costs/7'' ''DELETE'' JUndefined)]\<rparr>)"
  using apiCall_204_null [of "sample_env 204 ''ignored'' None" signed_in "''/costs/7''" "''DELETE''"
      JUndefined "\<lparr>status = 204, body_text = Some ''ignored''\<rparr>"]
  by (simp add: sample_env_def signed_in_def)

section \<open>Query strings\<close>

text \<open>
  C6. The URL of \<^verbatim>\<open>transactionsList\<close> is
  \<^verbatim>\<open>/transactions?context=<context>&limit=<limit>\<close> followed by one
  \<^verbatim>\<open>&<key>=<value>\<close> for each filter that is not \<^verbatim>\<open>null\<close>, in the order
  currencyId, costCategoryId, period, startDate, endDate, operation, and by
  nothing else; the one request of the call goes to the base URL followed by
  that URL.
\<close>

theorem transactionsList_url_filters:
  "transactionsList_url q = spec_transactions_url q
   \<and> map url (sent w (snd (transactionsList e q w))) = [BASE_URL e @ spec_transactions_url q]"
proof -
  have u: "transactionsList_url q = spec_transactions_url q"
    by (simp add: transactionsList_url_def spec_transactions_url_def present_filters_def
        join_empty_sep map_filter_simps split: option.splits)
  show ?thesis
    by (simp add: u [symmetric] sent_transactionsList build_request_def)
qed

theorem transactionsList_url_filters_witness:
  "transactionsList_url
     (no_filters\<lparr>currencyId := Some 2, endDate := Some ''2024-02-01'', context_arg := Some 30\<rparr>)
     = ''/transactions?context=30&limit=15&currencyId=2&endDate=2024-02-01''"
proof -
  have "spec_transactions_url
     (no_filters\<lparr>currencyId := Some 2, endDate := Some ''2024-02-01'', context_arg := Some 30\<rparr>)
     = ''/transactions?context=30&limit=15&currencyId=2&endDate=2024-02-01''"
    by (simp add: spec_transactions_url_def present_filters_def no_filters_def the_context_def
        the_limit_def show_int_def show_pos_def show_nat.simps digit_def map_filter_simps)
  then show ?thesis
    using transactionsList_url_filters
      [of "no_filters\<lparr>currencyId := Some 2, endDate := Some ''2024-02-01'', context_arg := Some 30\<rparr>"]
    by simp
qed

text \<open>
  C7, as the specification states it, fails: a filter value is put into the
  URL as it is, so a pattern that holds a separator brings it into the URL.
  For the pattern \<^verbatim>\<open>what?\<close> alone the URL has two question marks and ends
  with one.
\<close>

theorem fetchBasicAnalyticsFiltered_url_counterexample:
  "fetchBasicAnalyticsFiltered_url only_pattern = ''/analytics/basic?pattern=what?''
   \<and> \<not> count_list (fetchBasicAnalyticsFiltered_url only_pattern) CHR ''?'' \<le> 1
   \<and> trailing_sep (fetchBasicAnalyticsFiltered_url only_pattern)
   \<and> \<not> well_separated (fetchBasicAnalyticsFiltered_url only_pattern)"
  by (simp add: fetchBasicAnalyticsFiltered_url_def only_pattern_def well_separated_def
      is_sep_def)

text \<open>
  C7, amended. For every combination of present and absent filters, the URL
  of \<^verbatim>\<open>fetchBasicAnalyticsFiltered\<close> has at most one \<^verbatim>\<open>?\<close>, no two
  separators in a row and no separator at its end exactly when none of the
  filter values that are present brings such a fault with it, that is, when
  none of them holds a \<^verbatim>\<open>?\<close>, holds two separators in a row or ends with a
  separator: the construction adds no fault of its own. In every case, a
  pattern without a date range is the first parameter, after \<^verbatim>\<open>?\<close>, and a
  pattern with a date range comes after it, joined by \<^verbatim>\<open>&\<close>.
\<close>

theorem fetchBasicAnalyticsFiltered_url_separators:
  "(well_separated (fetchBasicAnalyticsFiltered_url f) \<longleftrightarrow> list_all clean (present_values f))
   \<and> (str_truthy (f_pattern f) \<and> \<not> (str_truthy (f_startDate f) \<and> str_truthy (f_endDate f)) \<longrightarrow>
        fetchBasicAnalyticsFiltered_url f = ''/analytics/basic?pattern='' @ interp (f_pattern f))
   \<and> (str_truthy (f_pattern f) \<and> str_truthy (f_startDate f) \<and> str_truthy (f_endDate f) \<longrightarrow>
        fetchBasicAnalyticsFiltered_url f =
          ''/analytics/basic?startDate='' @ interp (f_startDate f) @
          ''&endDate='' @ interp (f_endDate f) @ ''&pattern='' @ interp (f_pattern f))"
proof (cases "str_truthy (f_pattern f)")
  case pat: True
  note p = truthy_interp [OF pat]
  show ?thesis
  proof (cases "str_truthy (f_startDate f) \<and> str_truthy (f_endDate f)")
    case True
    then have sd: "str_truthy (f_startDate f)" and ed: "str_truthy (f_endDate f)" by simp_all
    have u: "fetchBasicAnalyticsFiltered_url f =
            ''/analytics/basic?startDate='' @ interp (f_startDate f) @
            ''&endDate='' @ interp (f_endDate f) @ ''&pattern='' @ interp (f_pattern f)"
      using pat sd ed by (simp add: fetchBasicAnalyticsFiltered_url_def)
    have v: "present_values f = [interp (f_startDate f), interp (f_endDate f), interp (f_pattern f)]"
      using pat sd ed by (simp add: present_values_def)
    have "well_separated (fetchBasicAnalyticsFiltered_url f) \<longleftrightarrow> list_all clean (present_values f)"
      unfolding u v
      using shape_both [OF truthy_interp [OF sd] truthy_interp [OF ed] p] by simp
    with u sd ed show ?thesis by simp
  next
    case False
    have u: "fetchBasicAnalyticsFiltered_url f = ''/analytics/basic?pattern='' @ interp (f_pattern f)"
      using pat False by (auto simp add: fetchBasicAnalyticsFiltered_url_def)
    have v: "present_values f = [interp (f_pattern f)]"
      using pat False by (auto simp add: present_values_def)
    have "well_separated (fetchBasicAnalyticsFiltered_url f) \<longleftrightarrow> list_all clean (present_values f)"
      unfolding u v using shape_pattern [OF p] by simp
    with u False show ?thesis by simp
  qed
next
  case nopat: False
  show ?thesis
  proof (cases "str_truthy (f_startDate f) \<and> str_truthy (f_endDate f)")
    case True
    then have sd: "str_truthy (f_startDate f)" and ed: "str_truthy (f_endDate f)" by simp_all
    have u: "fetchBasicAnalyticsFiltered_url f =
            ''/analytics/basic?startDate='' @ interp (f_startDate f) @
            ''&endDate='' @ interp (f_endDate f)"
      using nopat sd ed by (simp add: fetchBasicAnalyticsFiltered_url_def)
    have v: "present_values f = [interp (f_startDate f), interp (f_endDate f)]"
      using nopat sd ed by (simp add: present_values_def)
    have "well_separated (fetchBasicAnalyticsFiltered_url f) \<longleftrightarrow> list_all clean (present_values f)"
      unfolding u v
      using shape_dates [OF truthy_interp [OF sd] truthy_interp [OF ed]] by simp
    with nopat show ?thesis by simp
  next
    case False
    have u: "fetchBasicAnalyticsFiltered_url f = ''/analytics/basic''"
      using nopat False by (auto simp add: fetchBasicAnalyticsFiltered_url_def)
    have v: "present_values f = []"
      using nopat False by (auto simp add: present_values_def)
    have "well_separated (fetchBasicAnalyticsFiltered_url f) \<longleftrightarrow> list_all clean (present_values f)"
      unfolding u v using shape_none by simp
    with nopat show ?thesis by simp
  qed
qed

theorem fetchBasicAnalyticsFiltered_url_separators_witness:
  "well_separated (fetchBasicAnalyticsFiltered_url all_filters)
   \<and> fetchBasicAnalyticsFiltered_url all_filters
       = ''/analytics/basic?startDate=2024-01-01&endDate=2024-01-31&pattern=rent''
   \<and> fetchBasicAnalyticsFiltered_url one_date = ''/analytics/basic?pattern=rent''"
proof -
  note all = fetchBasicAnalyticsFiltered_url_separators [of all_filters]
  note one = fetchBasicAnalyticsFiltered_url_separators [of one_date]
  have c: "list_all clean (present_values all_filters)"
    by (simp add: all_filters_def present_values_def clean_def is_sep_def)
  have t: "str_truthy (f_pattern all_filters) \<and> str_truthy (f_startDate all_filters)
      \<and> str_truthy (f_endDate all_filters)"
    by (simp add: all_filters_def)
  have o: "str_truthy (f_pattern one_date)
      \<and> \<not> (str_truthy (f_startDate one_date) \<and> str_truthy (f_endDate one_date))"
    by (simp add: one_date_def)
  have w: "well_separated (fetchBasicAnalyticsFiltered_url all_filters)"
    using all [THEN conjunct1] c by (rule iffD2)
  have "fetchBasicAnalyticsFiltered_url all_filters =
          ''/analytics/basic?startDate='' @ interp (f_startDate all_filters) @
          ''&endDate='' @ interp (f_endDate all_filters) @
          ''&pattern='' @ interp (f_pattern all_filters)"
    using all [THEN conjunct2, THEN conjunct2] t by (rule mp)
  then have u: "fetchBasicAnalyticsFiltered_url all_filters
       = ''/analytics/basic?startDate=2024-01-01&endDate=2024-01-31&pattern=rent''"
    by (simp add: all_filters_def)
  have "fetchBasicAnalyticsFiltered_url one_date =
          ''/analytics/basic?pattern='' @ interp (f_pattern one_date)"
    using one [THEN conjunct2, THEN conjunct1] o by (rule mp)
  then have v: "fetchBasicAnalyticsFiltered_url one_date = ''/analytics/basic?pattern=rent''"
    by (simp add: one_date_def)
  show ?thesis
    using w u v by (intro conjI)
qed

text \<open>
  C10. When exactly one of \<^verbatim>\<open>startDate\<close> and \<^verbatim>\<open>endDate\<close> is given,
  neither date is put into the URL: the URL is \<^verbatim>\<open>/analytics/basic\<close>,
  followed by \<^verbatim>\<open>?pattern=<pattern>\<close> when there is a pattern, which is the
  URL of the same filters with both dates absent. The call sends its one
  request to the base URL followed by that URL, and the whole call behaves
  as the call with both dates absent does; no failure is raised for the
  lone date.
\<close>

theorem fetchBasicAnalyticsFiltered_one_date_dropped:
  assumes "(f_startDate f = None) \<noteq> (f_endDate f = None)"
  shows "fetchBasicAnalyticsFiltered_url f =
           ''/analytics/basic'' @
           (if str_truthy (f_pattern f) then ''?pattern='' @ interp (f_pattern f) else [])
       \<and> fetchBasicAnalyticsFiltered_url f =
           fetchBasicAnalyticsFiltered_url (f\<lparr>f_startDate := None, f_endDate := None\<rparr>)
       \<and> map url (sent w (snd (fetchBasicAnalyticsFiltered e f w))) =
           [BASE_URL e @ ''/analytics/basic'' @
            (if str_truthy (f_pattern f) then ''?pattern='' @ interp (f_pattern f) else [])]
       \<and> fetchBasicAnalyticsFiltered e f w =
           fetchBasicAnalyticsFiltered e (f\<lparr>f_startDate := None, f_endDate := None\<rparr>) w"
proof -
  from assms have nd: "\<not> (str_truthy (f_startDate f) \<and> str_truthy (f_endDate f))"
    by (cases "f_startDate f"; cases "f_endDate f"; simp)
  have u: "fetchBasicAnalyticsFiltered_url f =
           ''/analytics/basic'' @
           (if str_truthy (f_pattern f) then ''?pattern='' @ interp (f_pattern f) else [])"
    using nd by (auto simp add: fetchBasicAnalyticsFiltered_url_def)
  have v: "fetchBasicAnalyticsFiltered_url (f\<lparr>f_startDate := None, f_endDate := None\<rparr>) =
           ''/analytics/basic'' @
           (if str_truthy (f_pattern f) then ''?pattern='' @ interp (f_pattern f) else [])"
    by (simp add: fetchBasicAnalyticsFiltered_url_def)
  have s: "map url (sent w (snd (fetchBasicAnalyticsFiltered e f w))) =
           [BASE_URL e @ fetchBasicAnalyticsFiltered_url f]"
    by (simp add: fetchBasicAnalyticsFiltered_def snd_result_of sent_apiCall build_request_def)
  have c: "fetchBasicAnalyticsFiltered e f w =
           fetchBasicAnalyticsFiltered e (f\<lparr>f_startDate := None, f_endDate := None\<rparr>) w"
    by (simp only: fetchBasicAnalyticsFiltered_def u v)
  show ?thesis
    using u v s c by (simp only: simp_thms)
qed

theorem fetchBasicAnalyticsFiltered_one_date_dropped_witness:
  "fetchBasicAnalyticsFiltered_url one_date = ''/analytics/basic?pattern=rent''
   \<and> map url (sent signed_in
        (snd (fetchBasicAnalyticsFiltered (sample_env 200 ''...'' (Some envelope)) one_date
                signed_in)))
     = [''https://api.test/analytics/basic?pattern=rent'']"
proof -
  have h: "(f_startDate one_date = None) \<noteq> (f_endDate one_date = None)"
    by (simp add: one_date_def)
  note dropped = fetchBasicAnalyticsFiltered_one_date_dropped
    [OF h, of signed_in "sample_env 200 ''...'' (Some envelope)"]
  have p: "str_truthy (f_pattern one_date)" "interp (f_pattern one_date) = ''rent''"
    by (simp_all add: one_date_def)
  have b: "BASE_URL (sample_env 200 ''...'' (Some envelope)) = ''https://api.test''"
    by (simp add: sample_env_def)
  have u: "fetchBasicAnalyticsFiltered_url one_date = ''/analytics/basic?pattern=rent''"
    using dropped [THEN conjunct1] by (simp add: p)
  have s: "map url (sent signed_in
        (snd (fetchBasicAnalyticsFiltered (sample_env 200 ''...'' (Some envelope)) one_date
                signed_in)))
     = [''https://api.test/analytics/basic?pattern=rent'']"
    using dropped [THEN conjunct2, THEN conjunct2, THEN conjunct1] by (simp add: p b)
  show ?thesis
    using u s by (intro conjI)
qed

section \<open>Envelopes and request bodies\<close>

text \<open>
  C8, as the specification states it, fails: \<^verbatim>\<open>costCategoriesList\<close> hands
  the envelope back. When the dispatcher returns the envelope whose
  \<^verbatim>\<open>result\<close> is the array of \<^verbatim>\<open>food\<close> and \<^verbatim>\<open>rent\<close>, the operation does
  not return that array.
\<close>

theorem costCategoriesList_counterexample:
  "fst (apiCall (sample_env 200 ''...'' (Some envelope)) ''/costs/categories'' ''GET''
          JUndefined signed_in)
     = Inr (JObj [(''result'', JArr [JStr ''food'', JStr ''rent''])])
   \<and> fst (costCategoriesList (sample_env 200 ''...'' (Some envelope)) signed_in)
     \<noteq> Inr (JArr [JStr ''food'', JStr ''rent''])"
  by (simp add: costCategoriesList_def apiCall_def sample_env_def ok_def envelope_def Let_def)

text \<open>
  C8, amended. When the dispatcher returns an envelope whose \<^verbatim>\<open>result\<close> is
  a sequence, \<^verbatim>\<open>notificationsList\<close>, \<^verbatim>\<open>fetchBasicAnalyticsByPeriod\<close> and
  \<^verbatim>\<open>fetchBasicAnalyticsFiltered\<close> return the bare sequence, while
  \<^verbatim>\<open>costCategoriesList\<close>, \<^verbatim>\<open>costShortcutsList\<close> and \<^verbatim>\<open>equityList\<close> return
  the envelope itself.
\<close>

theorem list_operations_envelope:
  assumes "map_of kvs ''result'' = Some (JArr items)"
  shows "(fst (apiCall e ''/notifications'' ''GET'' JUndefined w) = Inr (JObj kvs) \<longrightarrow>
            fst (notificationsList e w) = Inr (JArr items))
       \<and> (fst (apiCall e (''/analytics/basic?period='' @ p) ''GET'' JUndefined w) = Inr (JObj kvs) \<longrightarrow>
            fst (fetchBasicAnalyticsByPeriod e p w) = Inr (JArr items))
       \<and> (fst (apiCall e (fetchBasicAnalyticsFiltered_url f) ''GET'' JUndefined w) = Inr (JObj kvs) \<longrightarrow>
            fst (fetchBasicAnalyticsFiltered e f w) = Inr (JArr items))
       \<and> (fst (apiCall e ''/costs/categories'' ''GET'' JUndefined w) = Inr (JObj kvs) \<longrightarrow>
            fst (costCategoriesList e w) = Inr (JObj kvs))
       \<and> (fst (apiCall e ''/costs/shortcuts'' ''GET'' JUndefined w) = Inr (JObj kvs) \<longrightarrow>
            fst (costShortcutsList e w) = Inr (JObj kvs))
       \<and> (fst (apiCall e ''/analytics/equity'' ''GET'' JUndefined w) = Inr (JObj kvs) \<longrightarrow>
            fst (equityList e w) = Inr (JObj kvs))"
proof -
  have unwrap: "fst (result_of c) = Inr (JArr items)" if "fst c = Inr (JObj kvs)" for c
    using that assms by (cases c) (simp add: result_of_def)
  show ?thesis
    by (simp add: notificationsList_def fetchBasicAnalyticsByPeriod_def
        fetchBasicAnalyticsFiltered_def costCategoriesList_def costShortcutsList_def
        equityList_def unwrap)
qed

theorem list_operations_envelope_witness:
  "fst (notificationsList (sample_env 200 ''...'' (Some envelope)) signed_in)
     = Inr (JArr [JStr ''food'', JStr ''rent''])
   \<and> fst (equityList (sample_env 200 ''...'' (Some envelope)) signed_in) = Inr envelope"
  using list_operations_envelope [of "[(''result'', JArr [JStr ''food'', JStr ''rent''])]"
      "[JStr ''food'', JStr ''rent'']" "sample_env 200 ''...'' (Some envelope)" signed_in]
  by (simp add: apiCall_def sample_env_def ok_def envelope_def Let_def)

text \<open>
  C9. \<^verbatim>\<open>costShortcutApply\<close> called without a request body sends one
  request, and the body of that request is absent: nothing is serialised,
  not even \<^verbatim>\<open>null\<close>.
\<close>

theorem costShortcutApply_no_body:
  "map body (sent w (snd (costShortcutApply e shortcutId JUndefined w))) = [None]"
  by (simp add: costShortcutApply_def sent_apiCall nullish_def build_request_def)

theorem costShortcutApply_no_body_witness:
  "map body (sent signed_in
      (snd (costShortcutApply (sample_env 200 ''{}'' (Some (JObj []))) 4 JUndefined signed_in)))
   = [None]"
  using costShortcutApply_no_body [of signed_in "sample_env 200 ''{}'' (Some (JObj []))" 4]
  by simp

end
